theory Spec2Isabelle
  imports Complex_Main
begin

text \<open>
  The evaluation pipeline of EDET: five evaluators of a tabular dataset (structural,
  governance, operational, logical, analytical) and the trust engine that combines their
  scores into the Enterprise Data Trust Index and its tier. Each Python function is a
  function of the same name here; the clock that the operational evaluator reads and the
  routines of pandas, numpy, scipy and scikit-learn that cannot be written out are
  arguments.
\<close>

section \<open>Numbers\<close>

text \<open>
  Python floats are idealised as exact reals. \<open>round(x, n)\<close> on a float rounds the exact
  value to \<open>n\<close> decimals, a tie going to the even neighbour.
\<close>

definition round_half_even :: "real \<Rightarrow> int" where
  "round_half_even x =
     (let f = \<lfloor>x\<rfloor>; r = x - of_int f
      in if r < 1 / 2 then f
         else if 1 / 2 < r then f + 1
         else if even f then f else f + 1)"

definition py_round :: "real \<Rightarrow> nat \<Rightarrow> real" where
  "py_round x n = of_int (round_half_even (x * 10 ^ n)) / 10 ^ n"

section \<open>Tables\<close>

text \<open>
  A pandas DataFrame is a row count and a list of columns; a column has a name, a dtype and
  one cell per row. \<open>NA\<close> is the missing value (None, NaN, NaT). The dtypes are grouped by
  what the evaluators test: \<open>DT_int_other\<close> stands for the remaining numpy integer dtypes
  (int8, int16, uint8, ...), whose names contain the text int; \<open>DT_other\<close> for every dtype
  that is neither numeric nor one of the others (category, timedelta, ...).
  Column names of a well-formed table are distinct, so that \<open>df[c]\<close> is the column \<open>c\<close>.
\<close>

datatype dtype =
  DT_object | DT_string | DT_int64 | DT_int32 | DT_int_other | DT_float | DT_bool
  | DT_datetime | DT_other

datatype cell = NA | Num real | Str string | Ts real | Flag bool

record column =
  col_name :: string
  col_dtype :: dtype
  col_values :: "cell list"

record dataframe =
  n_rows :: nat
  df_columns :: "column list"

definition n_cols :: "dataframe \<Rightarrow> nat" where
  "n_cols d = length (df_columns d)"

definition well_formed :: "dataframe \<Rightarrow> bool" where
  "well_formed d =
     (list_all (\<lambda>c. length (col_values c) = n_rows d) (df_columns d)
      \<and> distinct (map col_name (df_columns d)))"

text \<open>edet/models/profile.py: \<open>DatasetProfile.df\<close> (the metadata is not read by any evaluator).\<close>

record DatasetProfile =
  raw :: dataframe
  working_df :: "dataframe option"

definition profile_df :: "DatasetProfile \<Rightarrow> dataframe" where
  "profile_df p = (case working_df p of Some w \<Rightarrow> w | None \<Rightarrow> raw p)"

subsection \<open>pandas primitives\<close>

definition isna :: "cell \<Rightarrow> bool" where
  "isna v = (v = NA)"

definition dropna :: "cell list \<Rightarrow> cell list" where
  "dropna vs = filter (\<lambda>v. \<not> isna v) vs"

definition isna_all :: "cell list \<Rightarrow> bool" where
  "isna_all vs = list_all isna vs"

definition notna_all :: "cell list \<Rightarrow> bool" where
  "notna_all vs = list_all (\<lambda>v. \<not> isna v) vs"

definition na_count :: "cell list \<Rightarrow> nat" where
  "na_count vs = length (filter isna vs)"

text \<open>\<open>df.isna().sum().sum()\<close>\<close>

definition total_na :: "dataframe \<Rightarrow> nat" where
  "total_na d = sum_list (map (\<lambda>c. na_count (col_values c)) (df_columns d))"

text \<open>\<open>list(dict.fromkeys(xs))\<close>: the first occurrence of each element, in order.\<close>

definition dict_fromkeys :: "'a list \<Rightarrow> 'a list" where
  "dict_fromkeys xs = rev (remdups (rev xs))"

text \<open>\<open>Series.nunique()\<close>: the number of distinct values that are not missing.\<close>

definition nunique :: "cell list \<Rightarrow> nat" where
  "nunique vs = length (remdups (dropna vs))"

text \<open>\<open>.duplicated().sum()\<close>: the entries equal to an earlier one (missing values are equal
  to each other there).\<close>

definition duplicated_count :: "'a list \<Rightarrow> nat" where
  "duplicated_count xs = length xs - length (remdups xs)"

definition df_rows :: "dataframe \<Rightarrow> cell list list" where
  "df_rows d = map (\<lambda>i. map (\<lambda>c. col_values c ! i) (df_columns d)) [0..<n_rows d]"

text \<open>\<open>DataFrame.empty\<close>: some axis has length 0. \<open>DataFrame.duplicated()\<close> of an empty
  frame is the empty series.\<close>

definition df_empty :: "dataframe \<Rightarrow> bool" where
  "df_empty d = (n_rows d = 0 \<or> df_columns d = [])"

definition df_duplicated_sum :: "dataframe \<Rightarrow> nat" where
  "df_duplicated_sum d = (if df_empty d then 0 else duplicated_count (df_rows d))"

text \<open>\<open>Series.value_counts(dropna=False)\<close>: the count of each distinct value; \<open>vc_top\<close> is its
  first entry after the descending sort (of equal counts the value seen first).\<close>

definition value_counts :: "cell list \<Rightarrow> (cell \<times> nat) list" where
  "value_counts vs = map (\<lambda>v. (v, count_list vs v)) (dict_fromkeys vs)"

fun vc_top :: "(cell \<times> nat) list \<Rightarrow> (cell \<times> nat) option" where
  "vc_top [] = None"
| "vc_top (p # ps) =
     (case vc_top ps of
        None \<Rightarrow> Some p
      | Some q \<Rightarrow> if snd p < snd q then Some q else Some p)"

text \<open>\<open>select_dtypes(include=[np.number])\<close>\<close>

definition is_number :: "dtype \<Rightarrow> bool" where
  "is_number t = (t = DT_int64 \<or> t = DT_int32 \<or> t = DT_int_other \<or> t = DT_float)"

definition numeric_columns :: "dataframe \<Rightarrow> column list" where
  "numeric_columns d = filter (\<lambda>c. is_number (col_dtype c)) (df_columns d)"

definition select_number :: "dataframe \<Rightarrow> dataframe" where
  "select_number d = \<lparr> n_rows = n_rows d, df_columns = numeric_columns d \<rparr>"

text \<open>The numbers of a numeric column (its values that are not missing).\<close>

fun nums :: "cell list \<Rightarrow> real list" where
  "nums [] = []"
| "nums (Num x # vs) = x # nums vs"
| "nums (v # vs) = nums vs"

subsection \<open>Strings\<close>

text \<open>\<open>str.lower()\<close> on ASCII text.\<close>

definition lower_char :: "char \<Rightarrow> char" where
  "lower_char c =
     (case map_of (zip ''ABCDEFGHIJKLMNOPQRSTUVWXYZ'' ''abcdefghijklmnopqrstuvwxyz'') c of
        Some l \<Rightarrow> l
      | None \<Rightarrow> c)"

definition lower :: "string \<Rightarrow> string" where
  "lower s = map lower_char s"

fun starts_with :: "string \<Rightarrow> string \<Rightarrow> bool" where
  "starts_with [] s = True"
| "starts_with (p # ps) [] = False"
| "starts_with (p # ps) (c # cs) = (p = c \<and> starts_with ps cs)"

text \<open>\<open>contains p s\<close> is Python's \<open>p in s\<close>, and \<open>re.search(p, s)\<close> for a pattern \<open>p\<close> made of
  literal characters.\<close>

fun contains :: "string \<Rightarrow> string \<Rightarrow> bool" where
  "contains p [] = (p = [])"
| "contains p (c # cs) = (starts_with p (c # cs) \<or> contains p cs)"

subsection \<open>Library routines taken as given\<close>

text \<open>
  What the numeric and text libraries compute is a parameter of the evaluators:
  \<open>lib_str\<close> is \<open>str(v)\<close>; \<open>lib_float_ok s\<close> says that \<open>float(s)\<close> succeeds; \<open>lib_corr\<close> is
  the Pearson correlation of two columns and \<open>lib_std\<close> the sample standard deviation
  (\<open>None\<close> is NaN); \<open>lib_skew\<close> is \<open>scipy.stats.skew\<close>; \<open>lib_r2\<close> fits a column on others
  by least squares and scores the fit; \<open>lib_anomaly_density\<close> is the share of rows the
  isolation forest marks (\<open>None\<close> when fitting raises); \<open>lib_pii_search\<close> searches a value
  for the named pattern of \<open>PII_PATTERNS\<close>; \<open>lib_to_datetime\<close> is
  \<open>pd.to_datetime(..., errors="coerce")\<close> (\<open>None\<close> is NaT); \<open>lib_log2\<close> is \<open>np.log2\<close>;
  \<open>has_sklearn\<close> is the module's \<open>HAS_SKLEARN\<close>.
\<close>

datatype r2_outcome = R2 real | FitError | OtherError

record lib =
  lib_str :: "cell \<Rightarrow> string"
  lib_float_ok :: "string \<Rightarrow> bool"
  lib_corr :: "cell list \<Rightarrow> cell list \<Rightarrow> real option"
  lib_std :: "cell list \<Rightarrow> real option"
  lib_skew :: "cell list \<Rightarrow> real option"
  lib_r2 :: "column \<Rightarrow> column list \<Rightarrow> r2_outcome"
  lib_anomaly_density :: "column list \<Rightarrow> real option"
  lib_pii_search :: "string \<Rightarrow> string \<Rightarrow> bool"
  lib_to_datetime :: "cell list \<Rightarrow> real option list"
  lib_log2 :: "real \<Rightarrow> real"
  has_sklearn :: bool

section \<open>Result types (edet/models/scores.py)\<close>

text \<open>
  A flag that the source builds with an f-string is a constructor holding the values the
  string interpolates; a flag that is a fixed text is that text.
\<close>

datatype SensitivityLevel = LOW | MODERATE | HIGH

datatype TrustTier = DECISION_READY | REVIEW_RECOMMENDED | RISK_PRESENT | NOT_TRUSTWORTHY

datatype structural_flag =
  EmptyColumns nat "string list" bool
  | HighMissingDensity real
  | ModerateMissingDensity real
  | DuplicateRows nat real
  | ConstantColumn string
  | NearConstantColumn string cell
  | HighCorrelationRedundancy string string real
  | TypeInconsistency string

datatype governance_flag =
  NoUniqueIdentifier
  | SensitiveColumn string "string list"

datatype violation =
  NegativeRevenue string
  | ProfitAboveRevenue string string
  | NegativeValues string
  | HasDuplicates string

record StructuralResult =
  structural_integrity_score :: real
  structural_risk_flags :: "structural_flag list"
  redundant_feature_list :: "string list"
  candidate_primary_keys :: "string list"

record GovernanceResult =
  governance_risk_score :: real
  sensitivity_classification :: SensitivityLevel
  sensitive_column_map :: "(string \<times> string list) list"
  risk_flags :: "governance_flag list"

record OperationalResult =
  temporal_reliability_score :: real
  operational_risk_flags :: "string list"
  has_temporal_column :: bool
  latest_update_lag_days :: "real option"

record LogicalResult =
  logical_integrity_score :: real
  violation_rate :: real
  violations_summary :: "violation list"

record AnalyticalResult =
  analytics_utility_score :: real
  preparation_complexity_score :: real
  low_variance_columns :: "string list"
  high_skew_columns :: "string list"
  high_vif_columns :: "string list"
  anomaly_density :: "real option"

record TrustResult =
  edti_score :: real
  trust_tier :: TrustTier
  component_scores :: "(string \<times> real) list"
  risk_heatmap :: "(string \<times> real) list"

section \<open>Structural evaluator (edet/structural/evaluator.py)\<close>

definition empty_cols :: "dataframe \<Rightarrow> string list" where
  "empty_cols d = map col_name (filter (\<lambda>c. isna_all (col_values c)) (df_columns d))"

definition missing_ratio :: "dataframe \<Rightarrow> real" where
  "missing_ratio d =
     (if 0 < n_rows d * n_cols d then real (total_na d) / real (n_rows d * n_cols d) else 0)"

text \<open>\<open>df[col].dtype in ("object", "string", "int64", "int32") or "int" in str(df[col].dtype)\<close>\<close>

definition id_gate :: "dtype \<Rightarrow> bool" where
  "id_gate t =
     (t = DT_object \<or> t = DT_string \<or> t = DT_int64 \<or> t = DT_int32 \<or> t = DT_int_other)"

text \<open>One pass of the identifier loop: what it appends to \<open>candidate_pks\<close>, to \<open>redundant\<close>
  and to \<open>flags\<close>.\<close>

definition identifier_step ::
  "nat \<Rightarrow> column \<Rightarrow> string list \<times> string list \<times> structural_flag list" where
  "identifier_step n c =
     (if id_gate (col_dtype c) then
        (let uniq = nunique (col_values c)
         in (if uniq = n \<and> 0 < n \<and> notna_all (col_values c) then [col_name c] else [],
             if uniq = 1 \<and> 1 < n then [col_name c] else [],
             if uniq = 1 \<and> 1 < n then [ConstantColumn (col_name c)] else []))
      else ([], [], []))"

text \<open>One pass of the near-constant loop over the state \<open>(redundant, flags)\<close>.\<close>

definition near_constant_step ::
  "nat \<Rightarrow> column \<Rightarrow> string list \<times> structural_flag list
     \<Rightarrow> string list \<times> structural_flag list" where
  "near_constant_step n c st =
     (if col_name c \<in> set (fst st) then st
      else (case vc_top (value_counts (col_values c)) of
              None \<Rightarrow> st
            | Some (v, k) \<Rightarrow>
                if 0.95 \<le> real k / real n \<and> 10 < n
                then (fst st @ [col_name c], snd st @ [NearConstantColumn (col_name c) v])
                else st))"

text \<open>The pairs \<open>(xs[i], xs[j])\<close> with \<open>i < j\<close>, in the order of the two nested loops.\<close>

fun pairs_lt :: "'a list \<Rightarrow> ('a \<times> 'a) list" where
  "pairs_lt [] = []"
| "pairs_lt (x # xs) = map (Pair x) xs @ pairs_lt xs"

text \<open>An entry of \<open>num_df.corr().abs()\<close> off the diagonal: NaN when the two columns have no
  row where both hold a value.\<close>

definition complete_pairs :: "cell list \<Rightarrow> cell list \<Rightarrow> (cell \<times> cell) list" where
  "complete_pairs xs ys = filter (\<lambda>p. \<not> isna (fst p) \<and> \<not> isna (snd p)) (zip xs ys)"

definition corr_abs :: "lib \<Rightarrow> column \<Rightarrow> column \<Rightarrow> real option" where
  "corr_abs L c1 c2 =
     (if complete_pairs (col_values c1) (col_values c2) = [] then None
      else map_option abs (lib_corr L (col_values c1) (col_values c2)))"

definition corr_step :: "lib \<Rightarrow> column \<times> column \<Rightarrow> string list \<times> structural_flag list" where
  "corr_step L p =
     (case corr_abs L (fst p) (snd p) of
        None \<Rightarrow> ([], [])
      | Some r \<Rightarrow>
          if 0.95 < r
          then ([col_name (fst p), col_name (snd p)],
                [HighCorrelationRedundancy (col_name (fst p)) (col_name (snd p)) r])
          else ([], []))"

definition correlation_redundancy ::
  "lib \<Rightarrow> dataframe \<Rightarrow> string list \<times> structural_flag list" where
  "correlation_redundancy L d =
     (let num_df = numeric_columns d
      in if 2 \<le> length num_df
         then (concat (map (\<lambda>p. fst (corr_step L p)) (pairs_lt num_df)),
               concat (map (\<lambda>p. snd (corr_step L p)) (pairs_lt num_df)))
         else ([], []))"

definition looks_numeric :: "lib \<Rightarrow> string \<Rightarrow> bool" where
  "looks_numeric L s = lib_float_ok L (filter (\<lambda>ch. ch \<noteq> CHR '','') s)"

definition type_inconsistency_step :: "lib \<Rightarrow> column \<Rightarrow> structural_flag list" where
  "type_inconsistency_step L c =
     (let non_null = map (lib_str L) (dropna (col_values c))
      in if non_null = [] then []
         else (let k = length (filter (looks_numeric L) non_null)
               in if 0 < k \<and> k < length non_null
                  then [TypeInconsistency (col_name c)] else []))"

definition structural_score :: "real \<Rightarrow> nat \<Rightarrow> nat \<Rightarrow> nat \<Rightarrow> nat \<Rightarrow> nat \<Rightarrow> real" where
  "structural_score mr dup_count n n_empty n_redundant k =
     (let s1 = 1 - (if 0.5 < mr then 0.35 else if 0.2 < mr then 0.2
                    else if 0.05 < mr then 0.1 else 0);
          s2 = s1 - (if 0.1 < real dup_count / real (max n 1) then 0.2
                     else if 0 < dup_count then 0.1 else 0);
          s3 = s2 - (if 0 < n_empty then 0.1 * real (min n_empty 3) else 0);
          s4 = s3 - (if real k * 0.3 < real n_redundant then 0.15 else 0)
      in max 0 (min 1 s4))"

definition evaluate_structural :: "lib \<Rightarrow> DatasetProfile \<Rightarrow> StructuralResult" where
  "evaluate_structural L profile =
     (let df = profile_df profile;
          n = n_rows df;
          k = n_cols df;
          ecols = empty_cols df;
          flags1 = (if ecols \<noteq> []
                    then [EmptyColumns (length ecols) (take 5 ecols) (5 < length ecols)]
                    else []);
          mr = missing_ratio df;
          flags2 = (if 0.3 < mr then [HighMissingDensity mr]
                    else if 0.1 < mr then [ModerateMissingDensity mr] else []);
          dup_count = df_duplicated_sum df;
          flags3 = (if 0 < dup_count
                    then [DuplicateRows dup_count
                            (if n \<noteq> 0 then real dup_count / real n else 0)]
                    else []);
          steps = map (identifier_step n) (df_columns df);
          candidate_pks = concat (map fst steps);
          redundant1 = concat (map (\<lambda>t. fst (snd t)) steps);
          flags4 = concat (map (\<lambda>t. snd (snd t)) steps);
          nc = fold (near_constant_step n) (df_columns df) (redundant1, []);
          cr = correlation_redundancy L df;
          redundant = dict_fromkeys (fst nc @ fst cr);
          flags7 = concat (map (type_inconsistency_step L)
                     (filter (\<lambda>c. col_dtype c = DT_object) (df_columns df)));
          score = structural_score mr dup_count n (length ecols) (length redundant) k
      in \<lparr> structural_integrity_score = py_round score 4,
           structural_risk_flags = flags1 @ flags2 @ flags3 @ flags4 @ snd nc @ snd cr @ flags7,
           redundant_feature_list = redundant,
           candidate_primary_keys = candidate_pks \<rparr>)"

section \<open>Governance evaluator (edet/governance/evaluator.py)\<close>

definition PII_PATTERN_NAMES :: "string list" where
  "PII_PATTERN_NAMES =
     [''email'', ''ssn'', ''phone_us'', ''credit_card'', ''iban'', ''ip_address'']"

definition SENSITIVE_NAME_PATTERNS :: "string list" where
  "SENSITIVE_NAME_PATTERNS =
     [''password'', ''passwd'', ''pwd'', ''secret'', ''token'', ''api_key'',
      ''ssn'', ''social'', ''tax_id'', ''nin'', ''dob'', ''birth_date'',
      ''salary'', ''income'', ''bank_account'', ''credit_card'', ''cvv'',
      ''email'', ''phone'', ''address'', ''name'', ''first_name'', ''last_name'']"

definition column_name_risk :: "string \<Rightarrow> string list" where
  "column_name_risk col =
     map (\<lambda>pat. ''name:'' @ pat)
       (filter (\<lambda>pat. contains pat (lower col)) SENSITIVE_NAME_PATTERNS)"

definition detect_patterns_in_series :: "lib \<Rightarrow> cell list \<Rightarrow> string list" where
  "detect_patterns_in_series L vs =
     (let sample = take 1000 (map (lib_str L) (dropna vs))
      in filter (\<lambda>name. list_ex (lib_pii_search L name) sample) PII_PATTERN_NAMES)"

text \<open>A Python dict as an association list in insertion order; assigning to a key that is
  present keeps its place.\<close>

fun dict_set :: "'k \<Rightarrow> 'v \<Rightarrow> ('k \<times> 'v) list \<Rightarrow> ('k \<times> 'v) list" where
  "dict_set k v [] = [(k, v)]"
| "dict_set k v (e # m) = (if fst e = k then (k, v) # m else e # dict_set k v m)"

definition column_reasons :: "lib \<Rightarrow> column \<Rightarrow> string list" where
  "column_reasons L c =
     column_name_risk (col_name c)
     @ (if col_dtype c = DT_object \<or> col_dtype c = DT_string
        then detect_patterns_in_series L (col_values c) else [])"

definition raise_max_risk :: "string list \<Rightarrow> real \<Rightarrow> real" where
  "raise_max_risk reasons max_risk =
     (if list_ex (\<lambda>r. contains ''password'' r \<or> contains ''secret'' r \<or> contains ''token'' r)
           reasons
      then max max_risk 1.0
      else if list_ex (\<lambda>r. contains ''ssn'' r \<or> contains ''credit_card'' r
                             \<or> contains ''salary'' r) reasons
      then max max_risk 0.9
      else if list_ex (\<lambda>r. contains ''email'' r \<or> contains ''phone'' r) reasons
      then max max_risk 0.7
      else max_risk)"

text \<open>One pass of the column loop over the state \<open>(sensitive_map, max_risk)\<close>;
  \<open>list(set(reasons))\<close> is the reasons without repetition, in some order.\<close>

definition governance_step ::
  "lib \<Rightarrow> column \<Rightarrow> (string \<times> string list) list \<times> real
     \<Rightarrow> (string \<times> string list) list \<times> real" where
  "governance_step L c st =
     (let reasons = column_reasons L c
      in if reasons \<noteq> []
         then (dict_set (col_name c) (remdups reasons) (fst st),
               raise_max_risk reasons (snd st))
         else st)"

definition governance_scan :: "lib \<Rightarrow> dataframe \<Rightarrow> (string \<times> string list) list \<times> real" where
  "governance_scan L d = fold (governance_step L) (df_columns d) ([], 0)"

definition governance_risk :: "nat \<Rightarrow> real \<Rightarrow> real" where
  "governance_risk num_sensitive max_risk =
     min 1 (if 0 < num_sensitive
            then min 1 (0.3 + 0.2 * real num_sensitive + max_risk * 0.5)
            else 0.1)"

definition classify_sensitivity :: "nat \<Rightarrow> real \<Rightarrow> SensitivityLevel" where
  "classify_sensitivity num_sensitive max_risk =
     (if 0.9 \<le> max_risk \<or> 5 \<le> num_sensitive then HIGH
      else if 0.5 \<le> max_risk \<or> 2 \<le> num_sensitive then MODERATE
      else LOW)"

definition evaluate_governance :: "lib \<Rightarrow> DatasetProfile \<Rightarrow> GovernanceResult" where
  "evaluate_governance L profile =
     (let df = profile_df profile;
          scan = governance_scan L df;
          sensitive_map = fst scan;
          max_risk = snd scan;
          n = n_rows df;
          flags1 = (if 0 < n
                    then (if \<not> list_ex (\<lambda>c. nunique (col_values c) = n) (df_columns df)
                             \<and> 0 < n_cols df
                          then [NoUniqueIdentifier] else [])
                    else []);
          num_sensitive = length sensitive_map;
          flags2 = map (\<lambda>e. SensitiveColumn (fst e) (remdups (snd e))) sensitive_map
      in \<lparr> governance_risk_score = py_round (governance_risk num_sensitive max_risk) 4,
           sensitivity_classification = classify_sensitivity num_sensitive max_risk,
           sensitive_column_map = sensitive_map,
           risk_flags = take 50 (flags1 @ flags2) \<rparr>)"

section \<open>Operational evaluator (edet/operational/evaluator.py)\<close>

text \<open>Timestamps are seconds on the real line; \<open>now\<close> is the reading of \<open>pd.Timestamp.now()\<close>
  that the evaluator takes.\<close>

definition is_digit :: "char \<Rightarrow> bool" where
  "is_digit c = (c \<in> set ''0123456789'')"

text \<open>\<open>str.match(r"^\d{4}-\d{2}-\d{2}")\<close>\<close>

fun iso_date_prefix :: "string \<Rightarrow> bool" where
  "iso_date_prefix (y1 # y2 # y3 # y4 # s1 # m1 # m2 # s2 # d1 # d2 # rest) =
     (is_digit y1 \<and> is_digit y2 \<and> is_digit y3 \<and> is_digit y4 \<and> s1 = CHR ''-''
      \<and> is_digit m1 \<and> is_digit m2 \<and> s2 = CHR ''-'' \<and> is_digit d1 \<and> is_digit d2)"
| "iso_date_prefix s = False"

fun timestamps :: "cell list \<Rightarrow> real list" where
  "timestamps [] = []"
| "timestamps (Ts t # vs) = t # timestamps vs"
| "timestamps (v # vs) = timestamps vs"

fun somes :: "'a option list \<Rightarrow> 'a list" where
  "somes [] = []"
| "somes (None # xs) = somes xs"
| "somes (Some x # xs) = x # somes xs"

fun find_temporal_column :: "lib \<Rightarrow> column list \<Rightarrow> real list option" where
  "find_temporal_column L [] = None"
| "find_temporal_column L (c # cs) =
     (if col_dtype c = DT_datetime then Some (timestamps (col_values c))
      else if list_ex (\<lambda>v. iso_date_prefix (lib_str L v)) (dropna (col_values c))
      then Some (somes (lib_to_datetime L (col_values c)))
      else find_temporal_column L cs)"

fun list_max :: "real list \<Rightarrow> real" where
  "list_max [] = 0"
| "list_max [x] = x"
| "list_max (x # xs) = max x (list_max xs)"

text \<open>\<open>ts.diff().dropna()\<close> of a series without missing values.\<close>

fun series_diff :: "real list \<Rightarrow> real list" where
  "series_diff (x # y # xs) = (y - x) # series_diff (y # xs)"
| "series_diff xs = []"

definition median :: "real list \<Rightarrow> real" where
  "median xs =
     (let s = sort xs; n = length s
      in if odd n then s ! (n div 2) else (s ! (n div 2 - 1) + s ! (n div 2)) / 2)"

definition lag_penalty :: "real \<Rightarrow> string list \<times> real" where
  "lag_penalty lag =
     (if 365 < lag then ([''Data very stale: over 1 year old''], 0.4)
      else if 90 < lag then ([''Data may be stale: over 90 days''], 0.2)
      else if 30 < lag then ([''Moderate lag: over 30 days''], 0.1)
      else ([], 0))"

definition gap_count :: "real list \<Rightarrow> nat" where
  "gap_count ds = length (filter (\<lambda>d. 2 * median ds < d) ds)"

definition gap_penalty :: "real list \<Rightarrow> string list \<times> real" where
  "gap_penalty ts =
     (if 2 \<le> length ts then
        (let ds = series_diff ts
         in if 0 < length ds \<and> 0 < median ds then
              (let gaps = gap_count ds
               in if 0 < gaps
                  then ([''Time gaps detected''], min 0.2 (0.05 * real (min gaps 4)))
                  else ([], 0))
            else ([], 0))
      else ([], 0))"

definition no_temporal_result :: OperationalResult where
  "no_temporal_result =
     \<lparr> temporal_reliability_score = 0.5,
       operational_risk_flags = [''No temporal column detected''],
       has_temporal_column = False,
       latest_update_lag_days = None \<rparr>"

text \<open>\<open>(now - ts.max()).total_seconds() / 86400\<close> of the sorted timestamps.\<close>

definition lag_days :: "real \<Rightarrow> real list \<Rightarrow> real" where
  "lag_days now ts = (now - list_max ts) / 86400"

definition operational_of_timestamps :: "real \<Rightarrow> real list \<Rightarrow> OperationalResult" where
  "operational_of_timestamps now ts0 =
     (let ts = sort ts0;
          latest_lag_days = lag_days now ts;
          lp = lag_penalty latest_lag_days;
          gp = gap_penalty ts;
          score = max 0 (min 1 (1 - snd lp - snd gp))
      in \<lparr> temporal_reliability_score = py_round score 4,
           operational_risk_flags = fst lp @ fst gp,
           has_temporal_column = True,
           latest_update_lag_days = Some (py_round latest_lag_days 2) \<rparr>)"

definition evaluate_operational :: "lib \<Rightarrow> real \<Rightarrow> DatasetProfile \<Rightarrow> OperationalResult" where
  "evaluate_operational L now profile =
     (case find_temporal_column L (df_columns (profile_df profile)) of
        None \<Rightarrow> no_temporal_result
      | Some ts \<Rightarrow>
          if length ts = 0 then no_temporal_result
          else operational_of_timestamps now ts)"

section \<open>Logical evaluator (edet/logical/evaluator.py)\<close>

definition col_like :: "string \<Rightarrow> string list \<Rightarrow> bool" where
  "col_like name patterns = list_ex (\<lambda>p. contains p (lower name)) patterns"

text \<open>\<open>c in numeric.columns\<close>\<close>

definition in_numeric :: "dataframe \<Rightarrow> column \<Rightarrow> bool" where
  "in_numeric d c = (col_name c \<in> set (map col_name (numeric_columns d)))"

text \<open>\<open>(df[c] < 0).sum()\<close> and \<open>(df[a] > df[b]).sum()\<close>: a comparison with a missing value
  is false.\<close>

definition negative_count :: "cell list \<Rightarrow> nat" where
  "negative_count vs = length (filter (\<lambda>x. x < 0) (nums vs))"

fun cell_gt :: "cell \<Rightarrow> cell \<Rightarrow> bool" where
  "cell_gt (Num a) (Num b) = (b < a)"
| "cell_gt u v = False"

definition greater_count :: "cell list \<Rightarrow> cell list \<Rightarrow> nat" where
  "greater_count xs ys = length (filter (\<lambda>p. cell_gt (fst p) (snd p)) (zip xs ys))"

definition revenue_cols :: "dataframe \<Rightarrow> column list" where
  "revenue_cols d =
     filter (\<lambda>c. col_like (col_name c) [''revenue'', ''sales'', ''amount''] \<and> in_numeric d c)
       (df_columns d)"

definition profit_cols :: "dataframe \<Rightarrow> column list" where
  "profit_cols d =
     filter (\<lambda>c. col_like (col_name c) [''profit'', ''net_income''] \<and> in_numeric d c)
       (df_columns d)"

definition qty_cols :: "dataframe \<Rightarrow> column list" where
  "qty_cols d =
     filter (\<lambda>c. col_like (col_name c) [''qty'', ''quantity'', ''count''] \<and> in_numeric d c)
       (df_columns d)"

definition id_cols :: "dataframe \<Rightarrow> column list" where
  "id_cols d =
     filter (\<lambda>c. col_like (col_name c) [''id'', ''transaction'', ''txn'', ''key'']
                  \<and> 0 < nunique (col_values c))
       (df_columns d)"

text \<open>\<open>np.issubdtype(dtype, np.integer)\<close>\<close>

definition is_integer :: "dtype \<Rightarrow> bool" where
  "is_integer t = (t = DT_int64 \<or> t = DT_int32 \<or> t = DT_int_other)"

text \<open>Every check that runs adds one to \<open>total_checks\<close>; it is recorded here as \<open>None\<close> when
  it passes and as its violation when it fails, in the order the source runs them.\<close>

definition revenue_checks :: "dataframe \<Rightarrow> violation option list" where
  "revenue_checks d =
     map (\<lambda>c. if 0 < negative_count (col_values c)
               then Some (NegativeRevenue (col_name c)) else None)
       (revenue_cols d)"

definition profit_checks :: "dataframe \<Rightarrow> violation option list" where
  "profit_checks d =
     concat (map (\<lambda>rev_c.
        concat (map (\<lambda>pr_c.
           if col_name rev_c = col_name pr_c then []
           else [if 0 < greater_count (col_values pr_c) (col_values rev_c)
                 then Some (ProfitAboveRevenue (col_name pr_c) (col_name rev_c))
                 else None])
         (profit_cols d)))
       (revenue_cols d))"

definition qty_checks :: "dataframe \<Rightarrow> violation option list" where
  "qty_checks d =
     map (\<lambda>c. if 0 < negative_count (col_values c)
               then Some (NegativeValues (col_name c)) else None)
       (qty_cols d)"

definition id_checks :: "dataframe \<Rightarrow> violation option list" where
  "id_checks d =
     concat (map (\<lambda>c.
        if col_dtype c = DT_object \<or> col_dtype c = DT_string \<or> is_integer (col_dtype c)
        then [if 0 < duplicated_count (col_values c)
              then Some (HasDuplicates (col_name c)) else None]
        else [])
       (id_cols d))"

definition logical_checks :: "dataframe \<Rightarrow> violation option list" where
  "logical_checks d = revenue_checks d @ profit_checks d @ qty_checks d @ id_checks d"

definition total_checks :: "dataframe \<Rightarrow> nat" where
  "total_checks d = length (logical_checks d)"

definition passed :: "dataframe \<Rightarrow> nat" where
  "passed d = length (filter (\<lambda>r. r = None) (logical_checks d))"

definition evaluate_logical :: "DatasetProfile \<Rightarrow> LogicalResult" where
  "evaluate_logical profile =
     (let df = profile_df profile;
          violations = somes (logical_checks df);
          rate = (if total_checks df = 0 then 0
                  else 1 - real (passed df) / real (total_checks df));
          integrity = (if total_checks df = 0 then 0.85 else max 0 (1 - rate * 1.5))
      in \<lparr> logical_integrity_score = py_round (min 1 integrity) 4,
           violation_rate = py_round rate 4,
           violations_summary = take 30 violations \<rparr>)"

section \<open>Analytical evaluator (edet/analytical/evaluator.py)\<close>

definition series_mean :: "cell list \<Rightarrow> real option" where
  "series_mean vs =
     (let xs = nums vs in if xs = [] then None else Some (sum_list xs / real (length xs)))"

definition series_abs_max :: "cell list \<Rightarrow> real option" where
  "series_abs_max vs =
     (let xs = nums vs in if xs = [] then None else Some (list_max (map abs xs)))"

text \<open>The two branches of the variance test; a comparison with NaN is false.\<close>

definition is_low_variance :: "lib \<Rightarrow> column \<Rightarrow> bool" where
  "is_low_variance L c =
     (case lib_std L (col_values c) of
        None \<Rightarrow> False
      | Some std \<Rightarrow>
          if std = 0
             \<or> (std < 1 / 10 ^ 10
                 \<and> (case series_abs_max (col_values c) of
                       None \<Rightarrow> False | Some m \<Rightarrow> 1 / 10 ^ 10 < m))
          then True
          else (case series_mean (col_values c) of
                  None \<Rightarrow> False
                | Some mean \<Rightarrow> std < mean * 0.01 \<and> mean \<noteq> 0))"

definition low_var_columns :: "lib \<Rightarrow> column list \<Rightarrow> string list" where
  "low_var_columns L numeric = map col_name (filter (is_low_variance L) numeric)"

definition high_skew_of :: "lib \<Rightarrow> string list \<Rightarrow> column list \<Rightarrow> string list" where
  "high_skew_of L low_var numeric =
     map col_name
       (filter (\<lambda>c. col_name c \<notin> set low_var
                    \<and> (case lib_skew L (dropna (col_values c)) of
                          None \<Rightarrow> False | Some sk \<Rightarrow> 2 < \<bar>sk\<bar>))
          numeric)"

text \<open>\<open>value_counts(normalize=True)\<close>: the share of each distinct value among the values that
  are not missing.\<close>

definition value_shares :: "cell list \<Rightarrow> real list" where
  "value_shares vs =
     (let xs = dropna vs
      in map (\<lambda>v. real (count_list xs v) / real (length xs)) (dict_fromkeys xs))"

definition low_diversity :: "lib \<Rightarrow> cell list \<Rightarrow> bool" where
  "low_diversity L vs =
     (let vc = value_shares vs;
          ent = - sum_list (map (\<lambda>q. q * lib_log2 L (q + 1 / 10 ^ 10)) vc);
          max_ent = (if 1 < length vc then lib_log2 L (real (length vc)) else 1)
      in 0 < max_ent \<and> ent / max_ent < 0.1)"

definition text_columns :: "dataframe \<Rightarrow> column list" where
  "text_columns d =
     filter (\<lambda>c. col_dtype c = DT_object \<or> col_dtype c = DT_string) (df_columns d)"

datatype vif = Finite real | Infinite

definition vif_of_r2 :: "real \<Rightarrow> vif" where
  "vif_of_r2 r2 = (if r2 < 1 then Finite (1 / (1 - r2)) else Infinite)"

fun vif_above :: "vif \<Rightarrow> real \<Rightarrow> bool" where
  "vif_above (Finite v) b = (b < v)"
| "vif_above Infinite b = True"

definition std_positive :: "lib \<Rightarrow> column \<Rightarrow> bool" where
  "std_positive L c = (case lib_std L (col_values c) of None \<Rightarrow> False | Some s \<Rightarrow> 0 < s)"

text \<open>The loop of \<open>_vif\<close> over the columns of \<open>num\<close>: \<open>FitError\<close> is the LinAlgError or
  ValueError that the loop swallows, \<open>OtherError\<close> any other exception, which leaves
  \<open>_vif\<close> and is swallowed by the caller.\<close>

fun vif_loop ::
  "lib \<Rightarrow> column list \<Rightarrow> column list \<Rightarrow> (string \<times> vif) list \<Rightarrow> (string \<times> vif) list option"
  where
  "vif_loop L num [] vifs = Some vifs"
| "vif_loop L num (c # cs) vifs =
     (let X = filter (std_positive L) (filter (\<lambda>x. col_name x \<noteq> col_name c) num)
      in if X = [] then vif_loop L num cs vifs
         else (case lib_r2 L c X of
                 R2 r2 \<Rightarrow> vif_loop L num cs (dict_set (col_name c) (vif_of_r2 r2) vifs)
               | FitError \<Rightarrow> vif_loop L num cs vifs
               | OtherError \<Rightarrow> None))"

definition vif_table :: "lib \<Rightarrow> dataframe \<Rightarrow> (string \<times> vif) list option" where
  "vif_table L d =
     (let num = filter (\<lambda>c. \<not> isna_all (col_values c)) (numeric_columns d)
      in if length num < 2 then Some [] else vif_loop L num num [])"

definition high_vif_of :: "lib \<Rightarrow> dataframe \<Rightarrow> string list" where
  "high_vif_of L d =
     (case vif_table L d of
        None \<Rightarrow> []
      | Some vifs \<Rightarrow> map fst (filter (\<lambda>e. vif_above (snd e) 10) vifs))"

definition analytical_default :: AnalyticalResult where
  "analytical_default =
     \<lparr> analytics_utility_score = 0.5,
       preparation_complexity_score = 0.5,
       low_variance_columns = [],
       high_skew_columns = [],
       high_vif_columns = [],
       anomaly_density = None \<rparr>"

text \<open>The running \<open>utility_score\<close> and \<open>prep_complexity\<close> after all their updates, from the
  lengths of the three column lists, the number of low-diversity text columns and the
  missing ratio.\<close>

definition utility_total :: "nat \<Rightarrow> nat \<Rightarrow> nat \<Rightarrow> real" where
  "utility_total n_low_var n_high_skew n_high_vif =
     1 - (if 0 < n_low_var then 0.1 * real (min n_low_var 5) else 0)
       - (if 0 < n_high_skew then 0.05 * real (min n_high_skew 4) else 0)
       - (if 0 < n_high_vif then 0.1 * real (min n_high_vif 3) else 0)"

definition prep_total :: "nat \<Rightarrow> nat \<Rightarrow> nat \<Rightarrow> nat \<Rightarrow> real \<Rightarrow> real" where
  "prep_total n_low_var n_high_skew n_low_diversity n_high_vif mr =
     0 + (if 0 < n_low_var then 0.1 * real n_low_var else 0)
       + (if 0 < n_high_skew then 0.05 * real n_high_skew else 0)
       + 0.05 * real n_low_diversity
       + (if 0 < n_high_vif then 0.1 * real n_high_vif else 0)
       + mr * 0.5"

definition evaluate_analytical :: "lib \<Rightarrow> DatasetProfile \<Rightarrow> AnalyticalResult" where
  "evaluate_analytical L profile =
     (let df = profile_df profile;
          numeric = df_columns (select_number df)
      in if df_empty (select_number df) then analytical_default
         else
          (let low_var = low_var_columns L numeric;
               high_skew = high_skew_of L low_var numeric;
               n_low_diversity = length (filter (\<lambda>c. low_diversity L (col_values c))
                                           (text_columns df));
               high_vif = high_vif_of L df;
               anomaly = (if has_sklearn L \<and> 10 < n_rows (select_number df)
                             \<and> 1 \<le> length numeric
                          then lib_anomaly_density L numeric else None);
               utility_score = max 0 (min 1
                 (utility_total (length low_var) (length high_skew) (length high_vif)));
               prep_complexity = min 1
                 (prep_total (length low_var) (length high_skew) n_low_diversity
                    (length high_vif) (missing_ratio df))
           in \<lparr> analytics_utility_score = py_round utility_score 4,
                preparation_complexity_score = py_round prep_complexity 4,
                low_variance_columns = low_var,
                high_skew_columns = high_skew,
                high_vif_columns = high_vif,
                anomaly_density = map_option (\<lambda>a. py_round a 4) anomaly \<rparr>))"

section \<open>Trust engine (edet/trust_engine.py)\<close>

record EvaluationBundle =
  structural :: StructuralResult
  governance :: GovernanceResult
  operational :: OperationalResult
  logical :: LogicalResult
  analytical :: AnalyticalResult
  trust :: "TrustResult option"

definition governance_to_trust_component :: "GovernanceResult \<Rightarrow> real" where
  "governance_to_trust_component gr = max 0 (1 - governance_risk_score gr)"

definition prep_burden_to_component :: "real \<Rightarrow> real" where
  "prep_burden_to_component prep_score = max 0 (1 - prep_score)"

definition tier_of :: "real \<Rightarrow> TrustTier" where
  "tier_of edti =
     (if 0.80 \<le> edti then DECISION_READY
      else if 0.60 \<le> edti then REVIEW_RECOMMENDED
      else if 0.40 \<le> edti then RISK_PRESENT
      else NOT_TRUSTWORTHY)"

definition compute_edti ::
  "StructuralResult \<Rightarrow> GovernanceResult \<Rightarrow> OperationalResult \<Rightarrow> LogicalResult
     \<Rightarrow> AnalyticalResult \<Rightarrow> TrustResult" where
  "compute_edti st gv op lg an =
     (let g_trust = governance_to_trust_component gv;
          prep_trust = prep_burden_to_component (preparation_complexity_score an);
          edti0 = 0.22 * structural_integrity_score st
                  + 0.20 * g_trust
                  + 0.18 * temporal_reliability_score op
                  + 0.18 * logical_integrity_score lg
                  + 0.12 * analytics_utility_score an
                  + 0.10 * prep_trust;
          edti = py_round (max 0 (min 1 edti0)) 4
      in \<lparr> edti_score = edti,
           trust_tier = tier_of edti,
           component_scores =
             [(''Structural Integrity'', structural_integrity_score st),
              (''Governance (1-risk)'', g_trust),
              (''Temporal Stability'', temporal_reliability_score op),
              (''Logical Consistency'', logical_integrity_score lg),
              (''Analytics Utility'', analytics_utility_score an),
              (''Preparation Readiness'', prep_trust)],
           risk_heatmap =
             [(''Structural'', 1 - structural_integrity_score st),
              (''Governance'', governance_risk_score gv),
              (''Operational'', 1 - temporal_reliability_score op),
              (''Logical'', 1 - logical_integrity_score lg),
              (''Analytical'', 1 - analytics_utility_score an),
              (''Preparation Burden'', preparation_complexity_score an)] \<rparr>)"

text \<open>\<open>TrustEngine.evaluate\<close>\<close>

definition evaluate :: "lib \<Rightarrow> real \<Rightarrow> DatasetProfile \<Rightarrow> EvaluationBundle" where
  "evaluate L now profile =
     (let st = evaluate_structural L profile;
          gv = evaluate_governance L profile;
          op = evaluate_operational L now profile;
          lg = evaluate_logical profile;
          an = evaluate_analytical L profile
      in \<lparr> structural = st, governance = gv, operational = op, logical = lg,
           analytical = an, trust = Some (compute_edti st gv op lg an) \<rparr>)"

section \<open>The aggregation formula in the specification's words\<close>


section \<open>Example inputs\<close>

text \<open>Layer results whose six weighted components all equal \<open>x\<close>, aggregated.\<close>

definition uniform_trust :: "real \<Rightarrow> TrustResult" where
  "uniform_trust x =
     compute_edti
       \<lparr> structural_integrity_score = x, structural_risk_flags = [],
         redundant_feature_list = [], candidate_primary_keys = [] \<rparr>
       \<lparr> governance_risk_score = 1 - x, sensitivity_classification = LOW,
         sensitive_column_map = [], risk_flags = [] \<rparr>
       \<lparr> temporal_reliability_score = x, operational_risk_flags = [],
         has_temporal_column = True, latest_update_lag_days = Some 0 \<rparr>
       \<lparr> logical_integrity_score = x, violation_rate = 0, violations_summary = [] \<rparr>
       \<lparr> analytics_utility_score = x, preparation_complexity_score = 1 - x,
         low_variance_columns = [], high_skew_columns = [], high_vif_columns = [],
         anomaly_density = None \<rparr>"

text \<open>A stand-in for the libraries in examples: \<open>str\<close> of a text cell is its text, every
  statistic is NaN, no pattern matches, no text parses and no fit succeeds. The tables
  below are chosen so that the evaluators decide the same way with the real libraries:
  at most one numeric column has values, no text holds a pattern of \<open>PII_PATTERNS\<close>, a
  number or a date, and no statistic is near a threshold.\<close>

definition plain_lib :: lib where
  "plain_lib =
     \<lparr> lib_str = (\<lambda>v. case v of Str s \<Rightarrow> s | _ \<Rightarrow> []),
       lib_float_ok = (\<lambda>s. False),
       lib_corr = (\<lambda>xs ys. None),
       lib_std = (\<lambda>xs. None),
       lib_skew = (\<lambda>xs. None),
       lib_r2 = (\<lambda>y X. FitError),
       lib_anomaly_density = (\<lambda>X. None),
       lib_pii_search = (\<lambda>name s. False),
       lib_to_datetime = (\<lambda>vs. map (\<lambda>v. None) vs),
       lib_log2 = (\<lambda>x. 0),
       has_sklearn = False \<rparr>"

definition profile_of :: "nat \<Rightarrow> column list \<Rightarrow> DatasetProfile" where
  "profile_of n cs = \<lparr> raw = \<lparr> n_rows = n, df_columns = cs \<rparr>, working_df = None \<rparr>"

text \<open>Three orders: a repeated order id, a negative sale, one missing sale, and days 0, 1
  and 10 (in seconds).\<close>

definition orders_profile :: DatasetProfile where
  "orders_profile =
     profile_of 3
       [\<lparr> col_name = ''order_id'', col_dtype = DT_object,
          col_values = [Str ''A1'', Str ''A2'', Str ''A2''] \<rparr>,
        \<lparr> col_name = ''sales'', col_dtype = DT_float,
          col_values = [Num 10, Num (- 5), NA] \<rparr>,
        \<lparr> col_name = ''day'', col_dtype = DT_datetime,
          col_values = [Ts 0, Ts 86400, Ts 864000] \<rparr>]"

text \<open>A table read from a file that holds only its header: four columns, no rows.\<close>

definition header_only_profile :: DatasetProfile where
  "header_only_profile =
     profile_of 0
       [\<lparr> col_name = ''id'', col_dtype = DT_int64, col_values = [] \<rparr>,
        \<lparr> col_name = ''price'', col_dtype = DT_float, col_values = [] \<rparr>,
        \<lparr> col_name = ''qty'', col_dtype = DT_int64, col_values = [] \<rparr>,
        \<lparr> col_name = ''note'', col_dtype = DT_object, col_values = [] \<rparr>]"

text \<open>Two rows with the same price, as a float column and as an integer column.\<close>

definition float_constant_profile :: DatasetProfile where
  "float_constant_profile =
     profile_of 2
       [\<lparr> col_name = ''price'', col_dtype = DT_float,
          col_values = [Num 1.5, Num 1.5] \<rparr>]"

definition int_constant_profile :: DatasetProfile where
  "int_constant_profile =
     profile_of 2
       [\<lparr> col_name = ''price'', col_dtype = DT_int64, col_values = [Num 7, Num 7] \<rparr>]"

text \<open>Timestamps in seconds: three readings at the same instant and one five days later;
  and readings on days 0, 1, 2 and 10.\<close>

definition repeated_instant_profile :: DatasetProfile where
  "repeated_instant_profile =
     profile_of 4
       [\<lparr> col_name = ''day'', col_dtype = DT_datetime,
          col_values = [Ts 0, Ts 0, Ts 0, Ts 432000] \<rparr>]"

definition late_reading_profile :: DatasetProfile where
  "late_reading_profile =
     profile_of 4
       [\<lparr> col_name = ''day'', col_dtype = DT_datetime,
          col_values = [Ts 0, Ts 86400, Ts 172800, Ts 864000] \<rparr>]"

text \<open>One text column named email whose values hold no address.\<close>

definition contact_profile :: DatasetProfile where
  "contact_profile =
     profile_of 2
       [\<lparr> col_name = ''email'', col_dtype = DT_object,
          col_values = [Str ''unknown'', Str ''none''] \<rparr>]"


section \<open>Rounding\<close>

lemma round_half_even_floor_or_succ:
  "round_half_even x = \<lfloor>x\<rfloor>
   \<or> (round_half_even x = \<lfloor>x\<rfloor> + 1 \<and> 1 / 2 \<le> x - of_int \<lfloor>x\<rfloor>)"
  by (auto simp: round_half_even_def Let_def)


lemma round_half_even_of_int: "round_half_even (of_int k) = k"
  by (simp add: round_half_even_def)

lemma round_half_even_nonneg: "0 \<le> x \<Longrightarrow> 0 \<le> round_half_even x"
  using round_half_even_floor_or_succ [of x] by auto

lemma round_half_even_le_int: "x \<le> of_int k \<Longrightarrow> round_half_even x \<le> k"
  using round_half_even_floor_or_succ [of x] by linarith

lemma py_round_unit:
  assumes "0 \<le> x" and "x \<le> 1"
  shows "0 \<le> py_round x n \<and> py_round x n \<le> 1"
proof -
  have "0 \<le> x * 10 ^ n" using assms by simp
  then have lo: "0 \<le> round_half_even (x * 10 ^ n)" by (rule round_half_even_nonneg)
  have "x * 10 ^ n \<le> of_int (10 ^ n)" using assms by (simp add: mult_left_le_one_le)
  then have hi: "round_half_even (x * 10 ^ n) \<le> 10 ^ n" by (rule round_half_even_le_int)
  have "real_of_int (round_half_even (x * 10 ^ n)) \<le> real_of_int (10 ^ n)"
    using hi by (simp only: of_int_le_iff)
  then show ?thesis using lo by (simp add: py_round_def)
qed

lemma py_round_exact:
  assumes "x * 10 ^ n = of_int k"
  shows "py_round x n = x"
proof -
  have "py_round x n = of_int k / 10 ^ n"
    by (simp only: py_round_def assms round_half_even_of_int)
  also have "\<dots> = x" using assms [symmetric] by simp
  finally show ?thesis .
qed


section \<open>The trust index\<close>



text \<open>
  C2. The tier of the result of \<open>compute_edti\<close> follows its index with inclusive lower
  bounds: at least 0.80 Decision-Ready, from 0.60 below 0.80 Review Recommended, from 0.40
  below 0.60 Risk Present, below 0.40 Not Trustworthy; an index of exactly 0.80, 0.60 or
  0.40 gives Decision-Ready, Review Recommended or Risk Present.
\<close>

theorem trust_tier_thresholds:
  assumes "r = compute_edti st gv op lg an"
  shows "(0.80 \<le> edti_score r \<longrightarrow> trust_tier r = DECISION_READY)
    \<and> (0.60 \<le> edti_score r \<and> edti_score r < 0.80 \<longrightarrow> trust_tier r = REVIEW_RECOMMENDED)
    \<and> (0.40 \<le> edti_score r \<and> edti_score r < 0.60 \<longrightarrow> trust_tier r = RISK_PRESENT)
    \<and> (edti_score r < 0.40 \<longrightarrow> trust_tier r = NOT_TRUSTWORTHY)
    \<and> (edti_score r = 0.80 \<longrightarrow> trust_tier r = DECISION_READY)
    \<and> (edti_score r = 0.60 \<longrightarrow> trust_tier r = REVIEW_RECOMMENDED)
    \<and> (edti_score r = 0.40 \<longrightarrow> trust_tier r = RISK_PRESENT)"
proof -
  have "trust_tier r = tier_of (edti_score r)"
    by (simp add: assms compute_edti_def Let_def)
  then show ?thesis by (simp add: tier_of_def)
qed

lemma uniform_trust_score:
  "edti_score (uniform_trust 0.8) = 0.8"
  "edti_score (uniform_trust 0.6) = 0.6"
  "edti_score (uniform_trust 0.4) = 0.4"
  "edti_score (uniform_trust 0.79999) = 0.8"
  "edti_score (uniform_trust 0.7999) = 0.7999"
  "edti_score (uniform_trust 0.3999) = 0.3999"
  by (simp_all add: uniform_trust_def compute_edti_def Let_def
      governance_to_trust_component_def prep_burden_to_component_def py_round_def
      round_half_even_def)

theorem trust_tier_thresholds_witness:
  "edti_score (uniform_trust 0.8) = 0.8 \<and> trust_tier (uniform_trust 0.8) = DECISION_READY
   \<and> edti_score (uniform_trust 0.6) = 0.6
   \<and> trust_tier (uniform_trust 0.6) = REVIEW_RECOMMENDED
   \<and> edti_score (uniform_trust 0.4) = 0.4 \<and> trust_tier (uniform_trust 0.4) = RISK_PRESENT
   \<and> edti_score (uniform_trust 0.7999) = 0.7999
   \<and> trust_tier (uniform_trust 0.7999) = REVIEW_RECOMMENDED
   \<and> edti_score (uniform_trust 0.3999) = 0.3999
   \<and> trust_tier (uniform_trust 0.3999) = NOT_TRUSTWORTHY"
proof -
  have a: "trust_tier (uniform_trust 0.8) = DECISION_READY"
    using trust_tier_thresholds [OF uniform_trust_def [of "0.8"]] uniform_trust_score(1)
    by simp
  have b: "trust_tier (uniform_trust 0.6) = REVIEW_RECOMMENDED"
    using trust_tier_thresholds [OF uniform_trust_def [of "0.6"]] uniform_trust_score(2)
    by simp
  have c: "trust_tier (uniform_trust 0.4) = RISK_PRESENT"
    using trust_tier_thresholds [OF uniform_trust_def [of "0.4"]] uniform_trust_score(3)
    by simp
  have d: "trust_tier (uniform_trust 0.7999) = REVIEW_RECOMMENDED"
    using trust_tier_thresholds [OF uniform_trust_def [of "0.7999"]] uniform_trust_score(5)
    by simp
  have e: "trust_tier (uniform_trust 0.3999) = NOT_TRUSTWORTHY"
    using trust_tier_thresholds [OF uniform_trust_def [of "0.3999"]] uniform_trust_score(6)
    by simp
  show ?thesis
    using a b c d e uniform_trust_score by simp
qed

section \<open>Score ranges\<close>

lemma clamp_unit: "0 \<le> max 0 (min 1 (x::real)) \<and> max 0 (min 1 x) \<le> 1"
  by simp

lemma structural_score_unit:
  "0 \<le> structural_score mr dc n ne nr k \<and> structural_score mr dc n ne nr k \<le> 1"
  unfolding structural_score_def Let_def by (rule clamp_unit)

lemma evaluate_structural_unit:
  "0 \<le> structural_integrity_score (evaluate_structural L p)
   \<and> structural_integrity_score (evaluate_structural L p) \<le> 1"
  using structural_score_unit
  by (simp add: evaluate_structural_def Let_def py_round_unit)

lemma raise_max_risk_ge: "m \<le> raise_max_risk rs m"
  by (simp add: raise_max_risk_def)

lemma governance_fold_nonneg:
  "0 \<le> snd st \<Longrightarrow> 0 \<le> snd (fold (governance_step L) cs st)"
proof (induction cs arbitrary: st)
  case Nil
  then show ?case by simp
next
  case (Cons c cs)
  have "0 \<le> snd (governance_step L c st)"
    using Cons.prems raise_max_risk_ge [of "snd st" "column_reasons L c"]
    by (simp add: governance_step_def Let_def)
  then show ?case using Cons.IH by simp
qed

lemma governance_scan_nonneg: "0 \<le> snd (governance_scan L d)"
  by (simp add: governance_scan_def governance_fold_nonneg)

lemma governance_risk_unit:
  "0 \<le> m \<Longrightarrow> 0 \<le> governance_risk n m \<and> governance_risk n m \<le> 1"
  by (simp add: governance_risk_def)

lemma evaluate_governance_unit:
  "0 \<le> governance_risk_score (evaluate_governance L p)
   \<and> governance_risk_score (evaluate_governance L p) \<le> 1"
  using governance_risk_unit [OF governance_scan_nonneg]
  by (simp add: evaluate_governance_def Let_def py_round_unit)

lemma evaluate_operational_unit:
  "0 \<le> temporal_reliability_score (evaluate_operational L now p)
   \<and> temporal_reliability_score (evaluate_operational L now p) \<le> 1"
  by (simp add: evaluate_operational_def no_temporal_result_def operational_of_timestamps_def
      Let_def py_round_unit split: option.split)

lemma evaluate_logical_unit:
  "0 \<le> logical_integrity_score (evaluate_logical p)
   \<and> logical_integrity_score (evaluate_logical p) \<le> 1"
  by (simp add: evaluate_logical_def Let_def py_round_unit)

lemma missing_ratio_nonneg: "0 \<le> missing_ratio d"
  by (simp add: missing_ratio_def)

lemma prep_total_nonneg: "0 \<le> mr \<Longrightarrow> 0 \<le> prep_total a b c d mr"
  by (simp add: prep_total_def)

lemma evaluate_analytical_utility_unit:
  "0 \<le> analytics_utility_score (evaluate_analytical L p)
   \<and> analytics_utility_score (evaluate_analytical L p) \<le> 1"
  by (simp add: evaluate_analytical_def analytical_default_def Let_def py_round_unit)

lemma evaluate_analytical_preparation_unit:
  "0 \<le> preparation_complexity_score (evaluate_analytical L p)
   \<and> preparation_complexity_score (evaluate_analytical L p) \<le> 1"
  using prep_total_nonneg [OF missing_ratio_nonneg]
  by (simp add: evaluate_analytical_def analytical_default_def Let_def py_round_unit)

lemma compute_edti_unit:
  "0 \<le> edti_score (compute_edti st gv op lg an)
   \<and> edti_score (compute_edti st gv op lg an) \<le> 1"
  by (simp add: compute_edti_def Let_def py_round_unit)

text \<open>
  C3. For every profile (well-formed or not), every library and every clock reading, the
  seven scores of the evaluation lie in [0, 1]: structural integrity, governance risk,
  temporal reliability, logical integrity, analytics utility, preparation complexity and
  the trust index.
\<close>

theorem scores_in_unit_interval:
  assumes "b = evaluate L now profile"
  shows "0 \<le> structural_integrity_score (structural b)
    \<and> structural_integrity_score (structural b) \<le> 1
    \<and> 0 \<le> governance_risk_score (governance b)
    \<and> governance_risk_score (governance b) \<le> 1
    \<and> 0 \<le> temporal_reliability_score (operational b)
    \<and> temporal_reliability_score (operational b) \<le> 1
    \<and> 0 \<le> logical_integrity_score (logical b)
    \<and> logical_integrity_score (logical b) \<le> 1
    \<and> 0 \<le> analytics_utility_score (analytical b)
    \<and> analytics_utility_score (analytical b) \<le> 1
    \<and> 0 \<le> preparation_complexity_score (analytical b)
    \<and> preparation_complexity_score (analytical b) \<le> 1
    \<and> (\<exists>t. trust b = Some t \<and> 0 \<le> edti_score t \<and> edti_score t \<le> 1)"
  using evaluate_structural_unit [of L profile] evaluate_governance_unit [of L profile]
    evaluate_operational_unit [of L now profile] evaluate_logical_unit [of profile]
    evaluate_analytical_utility_unit [of L profile]
    evaluate_analytical_preparation_unit [of L profile]
    compute_edti_unit
  by (simp add: assms evaluate_def Let_def)

lemma orders_profile_scores:
  "well_formed (profile_df orders_profile)"
  "structural_integrity_score (evaluate_structural plain_lib orders_profile) = 0.9"
  "governance_risk_score (evaluate_governance plain_lib orders_profile) = 0.1"
  "temporal_reliability_score (evaluate_operational plain_lib 8640000 orders_profile) = 0.9"
  "logical_integrity_score (evaluate_logical orders_profile) = 0"
  "analytics_utility_score (evaluate_analytical plain_lib orders_profile) = 1"
  "preparation_complexity_score (evaluate_analytical plain_lib orders_profile) = 0.0556"
  by code_simp+

theorem scores_in_unit_interval_witness:
  "well_formed (profile_df orders_profile)
   \<and> structural_integrity_score (structural (evaluate plain_lib 8640000 orders_profile)) = 0.9
   \<and> governance_risk_score (governance (evaluate plain_lib 8640000 orders_profile)) = 0.1
   \<and> temporal_reliability_score (operational (evaluate plain_lib 8640000 orders_profile))
       = 0.9
   \<and> logical_integrity_score (logical (evaluate plain_lib 8640000 orders_profile)) = 0
   \<and> analytics_utility_score (analytical (evaluate plain_lib 8640000 orders_profile)) = 1
   \<and> preparation_complexity_score (analytical (evaluate plain_lib 8640000 orders_profile))
       = 0.0556
   \<and> (\<exists>t. trust (evaluate plain_lib 8640000 orders_profile) = Some t
          \<and> 0 \<le> edti_score t \<and> edti_score t \<le> 1)"
proof -
  have "\<exists>t. trust (evaluate plain_lib 8640000 orders_profile) = Some t
          \<and> 0 \<le> edti_score t \<and> edti_score t \<le> 1"
    using scores_in_unit_interval
      [where L = plain_lib and now = 8640000 and profile = orders_profile, OF refl]
    by blast
  moreover have "structural (evaluate plain_lib 8640000 orders_profile)
      = evaluate_structural plain_lib orders_profile"
    "governance (evaluate plain_lib 8640000 orders_profile)
      = evaluate_governance plain_lib orders_profile"
    "operational (evaluate plain_lib 8640000 orders_profile)
      = evaluate_operational plain_lib 8640000 orders_profile"
    "logical (evaluate plain_lib 8640000 orders_profile) = evaluate_logical orders_profile"
    "analytical (evaluate plain_lib 8640000 orders_profile)
      = evaluate_analytical plain_lib orders_profile"
    by (simp_all add: evaluate_def Let_def)
  ultimately show ?thesis
    using orders_profile_scores by simp
qed

section \<open>Tables without rows\<close>

text \<open>
  C10. For every profile whose table has zero rows, \<open>evaluate_analytical\<close> returns the fixed
  default (utility 0.5, preparation 0.5, the three column lists empty, anomaly density
  unset), which is also what every profile without numeric columns gets, whether or not
  numeric columns are declared.
\<close>

theorem zero_rows_analytical_default:
  assumes "n_rows (profile_df p) = 0"
  shows "evaluate_analytical L p =
      \<lparr> analytics_utility_score = 0.5, preparation_complexity_score = 0.5,
        low_variance_columns = [], high_skew_columns = [], high_vif_columns = [],
        anomaly_density = None \<rparr>
    \<and> (\<forall>q. numeric_columns (profile_df q) = []
          \<longrightarrow> evaluate_analytical L q = evaluate_analytical L p)"
  using assms
  by (simp add: evaluate_analytical_def analytical_default_def Let_def df_empty_def
      select_number_def)

theorem zero_rows_analytical_default_witness:
  "n_rows (profile_df header_only_profile) = 0
   \<and> map col_name (numeric_columns (profile_df header_only_profile))
       = [''id'', ''price'', ''qty'']
   \<and> evaluate_analytical plain_lib header_only_profile =
      \<lparr> analytics_utility_score = 0.5, preparation_complexity_score = 0.5,
        low_variance_columns = [], high_skew_columns = [], high_vif_columns = [],
        anomaly_density = None \<rparr>
   \<and> evaluate_analytical plain_lib late_reading_profile
       = evaluate_analytical plain_lib header_only_profile"
proof -
  have z: "n_rows (profile_df header_only_profile) = 0" by code_simp
  have n: "map col_name (numeric_columns (profile_df header_only_profile))
       = [''id'', ''price'', ''qty'']" by code_simp
  have q: "numeric_columns (profile_df late_reading_profile) = []" by code_simp
  show ?thesis
    using zero_rows_analytical_default [OF z, of plain_lib] z n q by blast
qed

lemma zero_rows_all_empty:
  "well_formed d \<Longrightarrow> n_rows d = 0 \<Longrightarrow> list_all (\<lambda>c. col_values c = []) (df_columns d)"
  by (simp add: well_formed_def list_all_iff)

lemma empty_cols_all:
  "list_all (\<lambda>c. col_values c = []) (df_columns d) \<Longrightarrow> empty_cols d = map col_name (df_columns d)"
  by (simp add: empty_cols_def isna_all_def list_all_iff filter_id_conv)

lemma identifier_step_zero: "col_values c = [] \<Longrightarrow> identifier_step 0 c = ([], [], [])"
  by (simp add: identifier_step_def nunique_def dropna_def Let_def)

lemma identifier_zero_concat:
  assumes "list_all (\<lambda>c. col_values c = []) cs"
  shows "concat (map (\<lambda>x. fst (identifier_step 0 x)) cs) = []"
    and "concat (map (\<lambda>x. fst (snd (identifier_step 0 x))) cs) = []"
    and "concat (map (\<lambda>x. snd (snd (identifier_step 0 x))) cs) = []"
  using assms by (induction cs) (simp_all add: identifier_step_zero)

lemma concat_map_nil: "concat (map (\<lambda>x. []) xs) = []"
  by (induction xs) simp_all

lemma near_constant_small: "n \<le> 10 \<Longrightarrow> fold (near_constant_step n) cs st = st"
  by (induction cs arbitrary: st) (simp_all add: near_constant_step_def split: option.split)

lemma pairs_lt_subset: "p \<in> set (pairs_lt xs) \<Longrightarrow> fst p \<in> set xs \<and> snd p \<in> set xs"
  by (induction xs) auto

lemma corr_step_empty:
  "col_values (fst p) = [] \<Longrightarrow> corr_step L p = ([], [])"
  by (simp add: corr_step_def corr_abs_def complete_pairs_def)

lemma correlation_redundancy_zero:
  assumes "list_all (\<lambda>c. col_values c = []) (df_columns d)"
  shows "correlation_redundancy L d = ([], [])"
proof -
  have "\<And>p. p \<in> set (pairs_lt (numeric_columns d)) \<Longrightarrow> corr_step L p = ([], [])"
  proof -
    fix p assume "p \<in> set (pairs_lt (numeric_columns d))"
    then have "fst p \<in> set (numeric_columns d)" using pairs_lt_subset by blast
    then have "col_values (fst p) = []"
      using assms by (simp add: numeric_columns_def list_all_iff)
    then show "corr_step L p = ([], [])" by (rule corr_step_empty)
  qed
  then have "map (\<lambda>p. corr_step L p) (pairs_lt (numeric_columns d))
      = map (\<lambda>p. ([], [])) (pairs_lt (numeric_columns d))"
    by simp
  then have a: "map (\<lambda>p. fst (corr_step L p)) (pairs_lt (numeric_columns d))
      = map (\<lambda>p. []) (pairs_lt (numeric_columns d))"
    and b: "map (\<lambda>p. snd (corr_step L p)) (pairs_lt (numeric_columns d))
      = map (\<lambda>p. []) (pairs_lt (numeric_columns d))"
    by (simp_all add: list_eq_iff_nth_eq) 
  show ?thesis
    by (simp add: correlation_redundancy_def Let_def a b concat_map_nil)
qed

lemma type_inconsistency_empty: "col_values c = [] \<Longrightarrow> type_inconsistency_step L c = []"
  by (simp add: type_inconsistency_step_def dropna_def)

lemma type_inconsistency_zero:
  assumes "list_all (\<lambda>c. col_values c = []) cs"
  shows "concat (map (type_inconsistency_step L) (filter P cs)) = []"
  using assms by (induction cs) (simp_all add: type_inconsistency_empty)

lemma structural_score_zero_rows:
  "0 < k \<Longrightarrow> structural_score 0 0 0 k 0 k = 1 - 0.1 * real (min k 3)"
proof -
  assume k: "0 < k"
  have "min k 3 = 1 \<or> min k 3 = 2 \<or> min k 3 = 3" using k by linarith
  then show ?thesis using k
    by (auto simp: structural_score_def Let_def)
qed

lemma py_round_tenths: "py_round (1 - 0.1 * real (min k 3)) 4 = 1 - 0.1 * real (min k 3)"
  by (rule py_round_exact [where k = "10000 - 1000 * int (min k 3)"]) simp


text \<open>
  C9. For every well-formed profile whose table has zero rows and k columns, k at least 1,
  \<open>evaluate_structural\<close> counts all k columns as fully null, emits the empty-columns flag
  (and no other), and returns the score 1.0 - 0.1 * min(k, 3); the missing-value density
  is 0.
\<close>

theorem zero_row_structural:
  assumes wf: "well_formed (profile_df p)"
    and z: "n_rows (profile_df p) = 0"
    and k: "1 \<le> n_cols (profile_df p)"
  shows "empty_cols (profile_df p) = map col_name (df_columns (profile_df p))
    \<and> structural_risk_flags (evaluate_structural L p)
        = [EmptyColumns (n_cols (profile_df p))
             (take 5 (map col_name (df_columns (profile_df p))))
             (5 < n_cols (profile_df p))]
    \<and> structural_integrity_score (evaluate_structural L p)
        = 1 - 0.1 * real (min (n_cols (profile_df p)) 3)
    \<and> missing_ratio (profile_df p) = 0"
proof -
  let ?d = "profile_df p"
  have e: "list_all (\<lambda>c. col_values c = []) (df_columns ?d)"
    using wf z by (rule zero_rows_all_empty)
  have ec: "empty_cols ?d = map col_name (df_columns ?d)"
    using e by (rule empty_cols_all)
  have ne: "df_columns ?d \<noteq> []" using k by (auto simp: n_cols_def)
  have len: "length (df_columns ?d) = n_cols ?d" by (simp add: n_cols_def)
  have mr: "missing_ratio ?d = 0" using z by (simp add: missing_ratio_def)
  have dup: "df_duplicated_sum ?d = 0" using z by (simp add: df_duplicated_sum_def df_empty_def)
  note st = identifier_zero_concat [OF e]
  have nc: "fold (near_constant_step 0) (df_columns ?d) ([], []) = ([], [])"
    by (rule near_constant_small) simp
  have cr: "correlation_redundancy L ?d = ([], [])"
    using e by (rule correlation_redundancy_zero)
  have ti: "concat (map (type_inconsistency_step L)
      (filter (\<lambda>c. col_dtype c = DT_object) (df_columns ?d))) = []"
    using e by (rule type_inconsistency_zero)
  have sc: "structural_score 0 0 0 (n_cols ?d) 0 (n_cols ?d) = 1 - 0.1 * real (min (n_cols ?d) 3)"
    using k by (intro structural_score_zero_rows) simp
  have fl: "structural_risk_flags (evaluate_structural L p)
        = [EmptyColumns (n_cols ?d) (take 5 (map col_name (df_columns ?d))) (5 < n_cols ?d)]"
    using ne by (simp add: evaluate_structural_def Let_def z ec mr dup st nc cr ti len
        o_def concat_map_nil dict_fromkeys_def)
  have "structural_integrity_score (evaluate_structural L p)
      = py_round (structural_score 0 0 0 (n_cols ?d) 0 (n_cols ?d)) 4"
    by (simp add: evaluate_structural_def Let_def z ec mr dup st nc cr ti len
        o_def concat_map_nil dict_fromkeys_def)
  then have "structural_integrity_score (evaluate_structural L p)
      = 1 - 0.1 * real (min (n_cols ?d) 3)"
    by (simp only: sc py_round_tenths)
  then show ?thesis using ec fl mr by simp
qed

theorem zero_row_structural_witness:
  "well_formed (profile_df header_only_profile)
   \<and> n_rows (profile_df header_only_profile) = 0
   \<and> n_cols (profile_df header_only_profile) = 4
   \<and> structural_risk_flags (evaluate_structural plain_lib header_only_profile)
       = [EmptyColumns 4 [''id'', ''price'', ''qty'', ''note''] False]
   \<and> structural_integrity_score (evaluate_structural plain_lib header_only_profile) = 0.7"
proof -
  have wf: "well_formed (profile_df header_only_profile)" by code_simp
  have z: "n_rows (profile_df header_only_profile) = 0" by code_simp
  have k: "n_cols (profile_df header_only_profile) = 4" by code_simp
  have names: "map col_name (df_columns (profile_df header_only_profile))
      = [''id'', ''price'', ''qty'', ''note'']" by code_simp
  have k1: "1 \<le> n_cols (profile_df header_only_profile)" using k by simp
  show ?thesis
    using zero_row_structural [OF wf z k1, of plain_lib] wf z k names by simp
qed


section \<open>Constant columns\<close>

text \<open>
  C5 as stated fails: in a table of two rows whose only column is a float column holding
  1.5 twice, the column has one distinct value, yet the result has no constant-column flag
  and an empty redundant list. The identifier loop tests only columns of an object, string
  or integer dtype, and the near-constant test needs more than 10 rows.
\<close>

theorem constant_float_column_counterexample:
  "1 < n_rows (profile_df float_constant_profile)
   \<and> df_columns (profile_df float_constant_profile)
       = [\<lparr> col_name = ''price'', col_dtype = DT_float, col_values = [Num 1.5, Num 1.5] \<rparr>]
   \<and> nunique [Num 1.5, Num 1.5] = 1
   \<and> structural_risk_flags (evaluate_structural plain_lib float_constant_profile)
       = [DuplicateRows 1 0.5]
   \<and> redundant_feature_list (evaluate_structural plain_lib float_constant_profile) = []
   \<and> ConstantColumn ''price''
       \<notin> set (structural_risk_flags (evaluate_structural plain_lib float_constant_profile))
   \<and> ''price''
       \<notin> set (redundant_feature_list (evaluate_structural plain_lib float_constant_profile))"
  by code_simp

lemma set_dict_fromkeys: "set (dict_fromkeys xs) = set xs"
  by (simp add: dict_fromkeys_def)

lemma near_constant_step_mono: "set (fst st) \<subseteq> set (fst (near_constant_step n c st))"
  by (auto simp: near_constant_step_def split: option.split)

lemma near_constant_fold_mono:
  "set (fst st) \<subseteq> set (fst (fold (near_constant_step n) cs st))"
proof (induction cs arbitrary: st)
  case Nil
  then show ?case by simp
next
  case (Cons c cs)
  have "set (fst st) \<subseteq> set (fst (near_constant_step n c st))"
    by (rule near_constant_step_mono)
  also have "\<dots> \<subseteq> set (fst (fold (near_constant_step n) cs (near_constant_step n c st)))"
    by (rule Cons.IH)
  finally show ?case by simp
qed

lemma identifier_step_constant:
  assumes "id_gate (col_dtype c)" and "nunique (col_values c) = 1" and "1 < n"
  shows "fst (snd (identifier_step n c)) = [col_name c]"
    and "snd (snd (identifier_step n c)) = [ConstantColumn (col_name c)]"
  using assms by (simp_all add: identifier_step_def Let_def)

lemma remdups_replicate_Suc: "remdups (replicate (Suc n) v) = [v]"
  by (induction n) auto

lemma nunique_replicate: "v \<noteq> NA \<Longrightarrow> 0 < n \<Longrightarrow> nunique (replicate n v) = 1"
proof -
  assume v: "v \<noteq> NA" and n: "0 < n"
  have "dropna (replicate n v) = replicate n v" using v by (simp add: dropna_def isna_def)
  moreover have "remdups (replicate n v) = [v]"
    using n remdups_replicate_Suc [of "n - 1" v] by simp
  ultimately show ?thesis by (simp add: nunique_def)
qed

text \<open>
  C5, amended. For every profile whose table has more than one row, every column of an
  object, string or integer dtype whose number of distinct values (missing values not
  counted) is exactly one is reported with a constant-column flag and is a member of the
  redundant-feature list.
\<close>

theorem constant_column_reported:
  assumes n: "1 < n_rows (profile_df p)"
    and c: "c \<in> set (df_columns (profile_df p))"
    and t: "id_gate (col_dtype c)"
    and u: "nunique (col_values c) = 1"
  shows "ConstantColumn (col_name c) \<in> set (structural_risk_flags (evaluate_structural L p))
    \<and> col_name c \<in> set (redundant_feature_list (evaluate_structural L p))"
proof -
  let ?d = "profile_df p"
  let ?steps = "map (identifier_step (n_rows ?d)) (df_columns ?d)"
  let ?red1 = "concat (map (\<lambda>t. fst (snd t)) ?steps)"
  let ?fl4 = "concat (map (\<lambda>t. snd (snd t)) ?steps)"
  have r1: "col_name c \<in> set ?red1"
    using c identifier_step_constant(1) [OF t u n] by (auto intro!: bexI [of _ c])
  have f4: "ConstantColumn (col_name c) \<in> set ?fl4"
    using c identifier_step_constant(2) [OF t u n] by (auto intro!: bexI [of _ c])
  have "col_name c \<in> set (fst (fold (near_constant_step (n_rows ?d)) (df_columns ?d) (?red1, [])))"
    using r1 near_constant_fold_mono [of "(?red1, [])"] by auto
  then have red: "col_name c \<in> set (redundant_feature_list (evaluate_structural L p))"
    by (simp add: evaluate_structural_def Let_def set_dict_fromkeys)
  have fl: "ConstantColumn (col_name c) \<in> set (structural_risk_flags (evaluate_structural L p))"
    using f4 by (simp add: evaluate_structural_def Let_def)
  show ?thesis using red fl by simp
qed

theorem constant_column_reported_witness:
  "1 < n_rows (profile_df int_constant_profile)
   \<and> df_columns (profile_df int_constant_profile)
       = [\<lparr> col_name = ''price'', col_dtype = DT_int64, col_values = replicate 2 (Num 7) \<rparr>]
   \<and> ConstantColumn ''price''
       \<in> set (structural_risk_flags (evaluate_structural plain_lib int_constant_profile))
   \<and> ''price'' \<in> set (redundant_feature_list (evaluate_structural plain_lib int_constant_profile))"
proof -
  let ?c = "\<lparr> col_name = ''price'', col_dtype = DT_int64, col_values = replicate 2 (Num 7) \<rparr>"
  have n: "1 < n_rows (profile_df int_constant_profile)" by code_simp
  have cs: "df_columns (profile_df int_constant_profile) = [?c]" by code_simp
  have c: "?c \<in> set (df_columns (profile_df int_constant_profile))" by (simp add: cs)
  have t: "id_gate (col_dtype ?c)" by (simp add: id_gate_def)
  have u: "nunique (col_values ?c) = 1" using nunique_replicate [of "Num 7" 2] by simp
  show ?thesis
    using constant_column_reported [OF n c t u, of plain_lib] n cs by simp
qed


section \<open>Time gaps\<close>

text \<open>
  C6 as stated fails: for the timestamps 0, 0, 0 and 432000 seconds the sorted differences
  are 0, 0 and 432000, their median is 0, and one difference exceeds twice the median, yet
  no time-gap flag is appended and nothing is subtracted. The source counts the gaps only
  when the median difference is positive.
\<close>

theorem zero_median_gap_counterexample:
  "find_temporal_column plain_lib (df_columns (profile_df repeated_instant_profile))
     = Some [0, 0, 0, 432000]
   \<and> series_diff (sort [0, 0, 0, 432000]) = [0, 0, 432000]
   \<and> median [0, 0, 432000] = 0
   \<and> gap_count [0, 0, 432000] = 1
   \<and> operational_risk_flags (evaluate_operational plain_lib 432000 repeated_instant_profile) = []
   \<and> temporal_reliability_score (evaluate_operational plain_lib 432000 repeated_instant_profile)
       = 1"
  by code_simp

lemma length_series_diff: "length (series_diff xs) = length xs - 1"
  by (induction xs rule: series_diff.induct) simp_all

lemma lag_penalty_values:
  "snd (lag_penalty x) = 0 \<or> snd (lag_penalty x) = 0.1 \<or> snd (lag_penalty x) = 0.2
   \<or> snd (lag_penalty x) = 0.4"
  by (simp add: lag_penalty_def)

lemma lag_penalty_flags: "''Time gaps detected'' \<notin> set (fst (lag_penalty x))"
  by (simp add: lag_penalty_def)

lemma score_exact:
  assumes "a = 0 \<or> a = 0.1 \<or> a = 0.2 \<or> a = (0.4::real)" and "m \<le> (4::nat)"
  shows "py_round (max 0 (min 1 (1 - a - 0.05 * real m))) 4 = 1 - a - 0.05 * real m"
proof -
  have m: "real m \<le> 4" using assms(2) by simp
  have c: "max 0 (min 1 (1 - a - 0.05 * real m)) = 1 - a - 0.05 * real m"
    using assms(1) m by auto
  have "\<exists>k::int. (1 - a - 0.05 * real m) * 10 ^ 4 = of_int k"
    using assms(1)
  proof (elim disjE)
    assume "a = 0"
    then have "(1 - a - 0.05 * real m) * 10 ^ 4 = of_int (10000 - 500 * int m)" by simp
    then show ?thesis by blast
  next
    assume "a = 0.1"
    then have "(1 - a - 0.05 * real m) * 10 ^ 4 = of_int (9000 - 500 * int m)" by simp
    then show ?thesis by blast
  next
    assume "a = 0.2"
    then have "(1 - a - 0.05 * real m) * 10 ^ 4 = of_int (8000 - 500 * int m)" by simp
    then show ?thesis by blast
  next
    assume "a = 0.4"
    then have "(1 - a - 0.05 * real m) * 10 ^ 4 = of_int (6000 - 500 * int m)" by simp
    then show ?thesis by blast
  qed
  then obtain k :: int where "(1 - a - 0.05 * real m) * 10 ^ 4 = of_int k" by blast
  then have "py_round (1 - a - 0.05 * real m) 4 = 1 - a - 0.05 * real m"
    by (rule py_round_exact)
  then show ?thesis by (simp only: c)
qed

lemma gap_penalty_cases:
  assumes "2 \<le> length ts"
  shows "gap_penalty ts =
     (if 0 < median (series_diff ts) \<and> 0 < gap_count (series_diff ts)
      then ([''Time gaps detected''], 0.05 * real (min (gap_count (series_diff ts)) 4))
      else ([], 0))"
proof -
  have "0 < length (series_diff ts)" using assms by (simp add: length_series_diff)
  moreover have "min 0.2 (0.05 * real (min g 4)) = 0.05 * real (min g 4)" for g :: nat
    by simp
  ultimately show ?thesis using assms by (simp add: gap_penalty_def Let_def)
qed

text \<open>
  C6, amended. For every profile with a detected temporal column of at least two
  timestamps, \<open>evaluate_operational\<close> takes the consecutive differences of the sorted
  timestamps and their median; when the median is positive and some difference exceeds
  twice the median, it appends the time-gap flag and subtracts
  min(0.2, 0.05 * min(gap_count, 4)) from the score left by the lag penalty; otherwise it
  appends no time-gap flag and subtracts nothing.
\<close>

theorem time_gap_penalty:
  assumes f: "find_temporal_column L (df_columns (profile_df p)) = Some ts"
    and l: "2 \<le> length ts"
  shows "if 0 < median (series_diff (sort ts)) \<and> 0 < gap_count (series_diff (sort ts))
     then ''Time gaps detected'' \<in> set (operational_risk_flags (evaluate_operational L now p))
       \<and> temporal_reliability_score (evaluate_operational L now p)
           = 1 - snd (lag_penalty (lag_days now (sort ts)))
               - min 0.2 (0.05 * real (min (gap_count (series_diff (sort ts))) 4))
     else ''Time gaps detected'' \<notin> set (operational_risk_flags (evaluate_operational L now p))
       \<and> temporal_reliability_score (evaluate_operational L now p)
           = 1 - snd (lag_penalty (lag_days now (sort ts)))"
proof -
  let ?ts = "sort ts"
  let ?a = "snd (lag_penalty (lag_days now ?ts))"
  let ?g = "gap_count (series_diff ?ts)"
  have ev: "evaluate_operational L now p = operational_of_timestamps now ts"
    using f l by (auto simp: evaluate_operational_def)
  have l': "2 \<le> length ?ts" using l by simp
  note gp = gap_penalty_cases [OF l']
  note a = lag_penalty_values [of "lag_days now ?ts"]
  have mn: "min 0.2 (0.05 * real (min g 4)) = 0.05 * real (min g 4)" for g :: nat by simp
  show ?thesis
  proof (cases "0 < median (series_diff ?ts) \<and> 0 < ?g")
    case True
    have "py_round (max 0 (min 1 (1 - ?a - 0.05 * real (min ?g 4)))) 4
        = 1 - ?a - 0.05 * real (min ?g 4)"
      by (rule score_exact [OF a]) simp
    then show ?thesis
      using True by (simp add: ev operational_of_timestamps_def Let_def gp mn)
  next
    case False
    have "py_round (max 0 (min 1 (1 - ?a - 0.05 * real (0::nat)))) 4
        = 1 - ?a - 0.05 * real (0::nat)"
      by (rule score_exact [OF a]) simp
    then show ?thesis
      using False lag_penalty_flags
      by (simp add: ev operational_of_timestamps_def Let_def gp)
  qed
qed


theorem time_gap_penalty_witness:
  "find_temporal_column plain_lib (df_columns (profile_df late_reading_profile))
     = Some [0, 86400, 172800, 864000]
   \<and> median (series_diff (sort [0, 86400, 172800, 864000])) = 86400
   \<and> gap_count (series_diff (sort [0, 86400, 172800, 864000])) = 1
   \<and> ''Time gaps detected''
       \<in> set (operational_risk_flags (evaluate_operational plain_lib 864000 late_reading_profile))
   \<and> temporal_reliability_score (evaluate_operational plain_lib 864000 late_reading_profile)
       = 0.95"
proof -
  have f: "find_temporal_column plain_lib (df_columns (profile_df late_reading_profile))
     = Some [0, 86400, 172800, 864000]" by code_simp
  have l: "2 \<le> length [0, 86400, 172800, 864000 :: real]" by simp
  have m: "median (series_diff (sort [0, 86400, 172800, 864000])) = 86400" by code_simp
  have g: "gap_count (series_diff (sort [0, 86400, 172800, 864000])) = 1" by code_simp
  have a: "snd (lag_penalty (lag_days 864000 (sort [0, 86400, 172800, 864000]))) = 0"
    by code_simp
  show ?thesis
    using time_gap_penalty [OF f l, of 864000] f m g a by simp
qed


section \<open>Governance risk\<close>

text \<open>The largest risk weight met in the column loop is 0, 0.7, 0.9 or 1, so the risk
  score has at most two decimals and rounding to four leaves it as it is.\<close>

lemma raise_max_risk_values:
  assumes "m = 0 \<or> m = 0.7 \<or> m = 0.9 \<or> m = 1"
  shows "raise_max_risk rs m = 0 \<or> raise_max_risk rs m = 0.7 \<or> raise_max_risk rs m = 0.9
    \<or> raise_max_risk rs m = 1"
  using assms by (auto simp: raise_max_risk_def)

lemma governance_fold_values:
  assumes "snd st = 0 \<or> snd st = 0.7 \<or> snd st = 0.9 \<or> snd st = 1"
  shows "snd (fold (governance_step L) cs st) = 0 \<or> snd (fold (governance_step L) cs st) = 0.7
    \<or> snd (fold (governance_step L) cs st) = 0.9 \<or> snd (fold (governance_step L) cs st) = 1"
  using assms
proof (induction cs arbitrary: st)
  case Nil
  then show ?case by simp
next
  case (Cons c cs)
  have "snd (governance_step L c st) = 0 \<or> snd (governance_step L c st) = 0.7
    \<or> snd (governance_step L c st) = 0.9 \<or> snd (governance_step L c st) = 1"
    using Cons.prems raise_max_risk_values [OF Cons.prems, of "column_reasons L c"]
    by (simp add: governance_step_def Let_def)
  then show ?case using Cons.IH by simp
qed

lemma governance_scan_values:
  "snd (governance_scan L d) = 0 \<or> snd (governance_scan L d) = 0.7
   \<or> snd (governance_scan L d) = 0.9 \<or> snd (governance_scan L d) = 1"
  unfolding governance_scan_def by (rule governance_fold_values) simp

lemma governance_risk_exact:
  assumes "m = 0 \<or> m = 0.7 \<or> m = 0.9 \<or> m = 1"
  shows "py_round (governance_risk n m) 4
     = (if n = 0 then 0.1 else min 1 (0.3 + 0.2 * real n + 0.5 * m))"
proof (cases "n = 0")
  case True
  have "py_round (0.1::real) 4 = 0.1" by (rule py_round_exact [where k = 1000]) simp
  then show ?thesis using True by (simp add: governance_risk_def)
next
  case False
  let ?v = "0.3 + 0.2 * real n + 0.5 * m"
  have g: "governance_risk n m = min 1 ?v"
    using False by (simp add: governance_risk_def mult.commute)
  have "py_round (min 1 ?v) 4 = min 1 ?v"
  proof (cases "1 \<le> ?v")
    case True
    have "py_round (1::real) 4 = 1" by (rule py_round_exact [where k = 10000]) simp
    then show ?thesis using True by (simp add: min_def)
  next
    case False
    have "\<exists>k::int. ?v * 10 ^ 4 = of_int k"
      using assms
    proof (elim disjE)
      assume "m = 0"
      then have "?v * 10 ^ 4 = of_int (3000 + 2000 * int n)" by simp
      then show ?thesis by blast
    next
      assume "m = 0.7"
      then have "?v * 10 ^ 4 = of_int (6500 + 2000 * int n)" by simp
      then show ?thesis by blast
    next
      assume "m = 0.9"
      then have "?v * 10 ^ 4 = of_int (7500 + 2000 * int n)" by simp
      then show ?thesis by blast
    next
      assume "m = 1"
      then have "?v * 10 ^ 4 = of_int (8000 + 2000 * int n)" by simp
      then show ?thesis by blast
    qed
    then obtain k :: int where "?v * 10 ^ 4 = of_int k" by blast
    then have "py_round ?v 4 = ?v" by (rule py_round_exact)
    then show ?thesis using False by (simp add: min_def)
  qed
  then show ?thesis using False g by simp
qed

text \<open>In a well-formed table the keys of the sensitive-column map are the names of the
  columns with at least one reason, in column order; the sensitive-column count is
  their number.\<close>

lemma dict_set_new: "k \<notin> fst ` set m \<Longrightarrow> dict_set k v m = m @ [(k, v)]"
  by (induction m) auto

lemma disjoint_insert_aux: "k \<notin> A \<Longrightarrow> A \<inter> B = {} \<Longrightarrow> C \<subseteq> insert k B \<Longrightarrow> A \<inter> C = {}"
  by auto

lemma governance_step_keys:
  assumes "col_name c \<notin> fst ` set (fst st)"
  shows "map fst (fst (governance_step L c st))
      = map fst (fst st) @ (if column_reasons L c \<noteq> [] then [col_name c] else [])"
  using dict_set_new [OF assms] by (simp add: governance_step_def Let_def)

lemma governance_fold_keys:
  assumes "distinct (map col_name cs)"
    and "col_name ` set cs \<inter> set (map fst (fst st)) = {}"
  shows "map fst (fst (fold (governance_step L) cs st))
     = map fst (fst st) @ map col_name (filter (\<lambda>c. column_reasons L c \<noteq> []) cs)"
  using assms
proof (induction cs arbitrary: st)
  case Nil
  then show ?case by simp
next
  case (Cons c cs)
  let ?st = "governance_step L c st"
  have new: "col_name c \<notin> fst ` set (fst st)" using Cons.prems(2) by auto
  note keys = governance_step_keys [OF new, of L]
  have d: "distinct (map col_name cs)" using Cons.prems(1) by simp
  have a: "col_name c \<notin> col_name ` set cs" using Cons.prems(1) by simp
  have b: "col_name ` set cs \<inter> set (map fst (fst st)) = {}" using Cons.prems(2) by auto
  have sub: "set (map fst (fst ?st)) \<subseteq> insert (col_name c) (set (map fst (fst st)))"
    by (simp only: keys) auto
  have disj: "col_name ` set cs \<inter> set (map fst (fst ?st)) = {}"
    using a b sub by (rule disjoint_insert_aux)
  have "map fst (fst (fold (governance_step L) cs ?st))
     = map fst (fst ?st) @ map col_name (filter (\<lambda>c. column_reasons L c \<noteq> []) cs)"
    using d disj by (rule Cons.IH)
  then show ?case by (simp add: keys)
qed

lemma governance_scan_keys:
  assumes "well_formed d"
  shows "map fst (fst (governance_scan L d))
     = map col_name (filter (\<lambda>c. column_reasons L c \<noteq> []) (df_columns d))"
  using assms governance_fold_keys [of "df_columns d" "([], 0)" L]
  by (simp add: governance_scan_def well_formed_def)

text \<open>
  C7. For every profile, with the sensitive-column count the size of the sensitive-column
  map and max_risk the largest weight met in the column loop: the governance risk score is
  0.1 when no sensitive column is found and min(1, 0.3 + 0.2 * count + 0.5 * max_risk)
  otherwise; the classification is High when max_risk is at least 0.9 or the count at
  least 5, otherwise Moderate when max_risk is at least 0.5 or the count at least 2, and
  Low otherwise.
\<close>

theorem governance_score_and_classification:
  assumes "g = evaluate_governance L p"
    and "num_sensitive = length (sensitive_column_map g)"
    and "max_risk = snd (governance_scan L (profile_df p))"
  shows "sensitive_column_map g = fst (governance_scan L (profile_df p))
    \<and> governance_risk_score g
        = (if num_sensitive = 0 then 0.1
           else min 1 (0.3 + 0.2 * real num_sensitive + 0.5 * max_risk))
    \<and> sensitivity_classification g
        = (if 0.9 \<le> max_risk \<or> 5 \<le> num_sensitive then HIGH
           else if 0.5 \<le> max_risk \<or> 2 \<le> num_sensitive then MODERATE
           else LOW)"
proof -
  have m: "sensitive_column_map g = fst (governance_scan L (profile_df p))"
    by (simp add: assms(1) evaluate_governance_def Let_def)
  have n: "num_sensitive = length (fst (governance_scan L (profile_df p)))"
    using assms(2) m by simp
  have "governance_risk_score g = py_round (governance_risk num_sensitive max_risk) 4"
    by (simp add: assms(1) n assms(3) evaluate_governance_def Let_def)
  also have "\<dots> = (if num_sensitive = 0 then 0.1
           else min 1 (0.3 + 0.2 * real num_sensitive + 0.5 * max_risk))"
    unfolding assms(3) by (rule governance_risk_exact [OF governance_scan_values])
  finally have s: "governance_risk_score g = (if num_sensitive = 0 then 0.1
           else min 1 (0.3 + 0.2 * real num_sensitive + 0.5 * max_risk))" .
  have c: "sensitivity_classification g = classify_sensitivity num_sensitive max_risk"
    by (simp add: assms(1) n assms(3) evaluate_governance_def Let_def)
  show ?thesis using m s c by (simp add: classify_sensitivity_def)
qed

theorem governance_score_and_classification_witness:
  "sensitive_column_map (evaluate_governance plain_lib contact_profile)
     = [(''email'', [''name:email''])]
   \<and> snd (governance_scan plain_lib (profile_df contact_profile)) = 0.7
   \<and> governance_risk_score (evaluate_governance plain_lib contact_profile) = 0.85
   \<and> sensitivity_classification (evaluate_governance plain_lib contact_profile) = MODERATE
   \<and> sensitive_column_map (evaluate_governance plain_lib late_reading_profile) = []
   \<and> governance_risk_score (evaluate_governance plain_lib late_reading_profile) = 0.1
   \<and> sensitivity_classification (evaluate_governance plain_lib late_reading_profile) = LOW"
proof -
  have a: "sensitive_column_map (evaluate_governance plain_lib contact_profile)
     = [(''email'', [''name:email''])]" by code_simp
  have b: "snd (governance_scan plain_lib (profile_df contact_profile)) = 0.7" by code_simp
  have c: "sensitive_column_map (evaluate_governance plain_lib late_reading_profile) = []"
    by code_simp
  have d: "snd (governance_scan plain_lib (profile_df late_reading_profile)) = 0" by code_simp
  show ?thesis
    using governance_score_and_classification [OF refl refl refl, of plain_lib contact_profile]
      governance_score_and_classification
        [OF refl refl refl, of plain_lib late_reading_profile]
      a b c d
    by simp
qed


section \<open>Logical integrity\<close>





section \<open>The clock\<close>





end
